theory Spec2Isabelle
  imports Complex_Main
begin

section \<open>Python strings\<close>

text \<open>
  A Python \<open>str\<close> is a sequence of Unicode code points, so it is modelled as a list of
  natural numbers (one per code point), not as a list of bytes.  The function \<open>py\<close>
  turns an ASCII literal into such a list.
\<close>

type_synonym pystr = "nat list"

definition py :: "string \<Rightarrow> pystr" where
  "py s = map of_char s"

definition lbrace :: nat where
  "lbrace = 123"

definition rbrace :: nat where
  "rbrace = 125"

text \<open>\<open>text.find(c)\<close> for a one-character needle: the lowest index, or \<open>-1\<close>.\<close>

fun str_find :: "pystr \<Rightarrow> nat \<Rightarrow> int" where
  "str_find [] c = -1"
| "str_find (x # xs) c =
     (if x = c then 0
      else (let r = str_find xs c in if r = -1 then -1 else r + 1))"

text \<open>\<open>text.rfind(c)\<close> for a one-character needle: the highest index, or \<open>-1\<close>.\<close>

fun str_rfind :: "pystr \<Rightarrow> nat \<Rightarrow> int" where
  "str_rfind [] c = -1"
| "str_rfind (x # xs) c =
     (let r = str_rfind xs c in
      if r = -1 then (if x = c then 0 else -1) else r + 1)"

text \<open>
  The slice \<open>xs[i:j]\<close>: a negative bound counts from the end, every bound is clamped
  to the length, and an empty range gives the empty sequence (a slice never raises).
\<close>

definition py_slice :: "'a list \<Rightarrow> int \<Rightarrow> int \<Rightarrow> 'a list" where
  "py_slice xs i j =
     (let n = int (length xs);
          lo = (if i < 0 then max 0 (i + n) else min i n);
          hi = (if j < 0 then max 0 (j + n) else min j n)
      in take (nat (hi - lo)) (drop (nat lo) xs))"

text \<open>\<open>str.isspace\<close> on one code point, and \<open>str.strip()\<close> with no argument.\<close>

definition py_isspace :: "nat \<Rightarrow> bool" where
  "py_isspace c =
     ((9 \<le> c \<and> c \<le> 13) \<or> (28 \<le> c \<and> c \<le> 32) \<or> c = 133 \<or> c = 160 \<or> c = 5760
      \<or> (8192 \<le> c \<and> c \<le> 8202) \<or> c = 8232 \<or> c = 8233 \<or> c = 8239 \<or> c = 8287
      \<or> c = 12288)"

definition py_strip :: "pystr \<Rightarrow> pystr" where
  "py_strip s = rev (dropWhile py_isspace (rev (dropWhile py_isspace s)))"

text \<open>\<open>str(n)\<close> of an integer, as an f-string formats it: decimal digits, \<open>-\<close> first
  when negative.\<close>

fun digits10 :: "nat \<Rightarrow> pystr" where
  "digits10 n = (if n < 10 then [48 + n] else digits10 (n div 10) @ [48 + n mod 10])"

declare digits10.simps [simp del]

definition py_str_int :: "int \<Rightarrow> pystr" where
  "py_str_int i = (if i < 0 then 45 # digits10 (nat (- i)) else digits10 (nat i))"

section \<open>Exceptions\<close>

text \<open>
  The exceptions that the modelled code raises or meets.  \<open>OtherException\<close> stands for
  any other subclass of \<open>Exception\<close>, named by its class: what a collaborator raises
  (timeout, rate limit, transport fault).  The last three derive from \<open>BaseException\<close>
  only, so an \<open>except Exception\<close> clause does not catch them.
\<close>

datatype py_exc =
    ValueError pystr
  | RuntimeError pystr
  | IndexError
  | AttributeError
  | JSONDecodeError
  | OtherException pystr
  | KeyboardInterrupt
  | SystemExit
  | GeneratorExit

fun is_Exception :: "py_exc \<Rightarrow> bool" where
  "is_Exception KeyboardInterrupt = False"
| "is_Exception SystemExit = False"
| "is_Exception GeneratorExit = False"
| "is_Exception _ = True"

section \<open>JSON values and the schema\<close>

text \<open>
  The values of \<open>json.loads\<close> and \<open>json.dumps\<close>: a \<open>dict\<close> keeps its items in
  insertion order.  \<open>JFloat\<close> carries the number that a finite float denotes.
\<close>

datatype json =
    JNull
  | JBool bool
  | JInt int
  | JFloat real
  | JStr pystr
  | JList "json list"
  | JDict "(pystr \<times> json) list"

fun dict_keys :: "json \<Rightarrow> pystr list" where
  "dict_keys (JDict kvs) = map fst kvs"
| "dict_keys _ = []"

text \<open>\<open>JSONExtractor._SCHEMA\<close>; code point 8209 is the non-breaking hyphen of the
  first description.\<close>

definition SCHEMA :: json where
  "SCHEMA = JDict
     [(py ''year'',
         JStr (py ''integer '' @ [8209] @ py '' 4'' @ [8209] @ py ''digit year of the fact sheet'')),
      (py ''total_incidents'', JStr (py ''integer total number of incidents reported'')),
      (py ''nuclear_material_incidents'',
         JStr (py ''integer incidents involving nuclear material'')),
      (py ''radioactive_material_incidents'',
         JStr (py ''integer incidents involving other radioactive material'')),
      (py ''incidents_by_material'',
         JDict [(py ''uranium'', JStr (py ''integer'')),
                (py ''plutonium'', JStr (py ''integer'')),
                (py ''medical_isotopes'', JStr (py ''integer''))]),
      (py ''incidents_by_group'',
         JDict [(py ''theft_or_loss'', JStr (py ''integer'')),
                (py ''unauthorized_activities'', JStr (py ''integer'')),
                (py ''other'', JStr (py ''integer''))])]"

section \<open>The chat-completion client\<close>

text \<open>
  The client is an external collaborator.  A call takes the request and the client's
  hidden state and either raises or returns a response, with the next hidden state.
  Of a response the code reads \<open>response.choices[0].message.content\<close> only, so a
  response is the list of its choices' contents (\<open>None\<close> when a message has no text).
\<close>

record chat_message =
  msg_role :: pystr
  msg_content :: pystr

record chat_request =
  req_model :: pystr
  req_messages :: "chat_message list"
  req_max_tokens :: int
  req_temperature :: real
  req_top_p :: real

record chat_response =
  choices :: "pystr option list"

type_synonym 's client = "chat_request \<Rightarrow> 's \<Rightarrow> (py_exc + chat_response) \<times> 's"

text \<open>
  What one call of \<open>extract\<close> can change: the client's hidden state, the requests sent
  so far, and the records written by \<open>logger.exception\<close> (attempt number and exception).
\<close>

record 's world =
  cstate :: 's
  sent :: "chat_request list"
  logged :: "(int \<times> py_exc) list"

section \<open>\<open>JSONExtractor\<close>\<close>

record 's JSONExtractor =
  self_client :: "'s client"
  self_deployment :: pystr
  self_temperature :: real
  self_max_retries :: int
  self_max_tokens :: int

text \<open>\<open>__init__\<close>: the three keyword arguments are optional (\<open>None\<close>: not passed).\<close>

definition JSONExtractor_init ::
  "'s client \<Rightarrow> pystr \<Rightarrow> real option \<Rightarrow> int option \<Rightarrow> int option \<Rightarrow> 's JSONExtractor" where
  "JSONExtractor_init client deployment temperature max_retries max_tokens =
     \<lparr> self_client = client,
       self_deployment = deployment,
       self_temperature = (case temperature of None \<Rightarrow> 0 | Some t \<Rightarrow> t),
       self_max_retries = (case max_retries of None \<Rightarrow> 3 | Some m \<Rightarrow> m),
       self_max_tokens = (case max_tokens of None \<Rightarrow> 1024 | Some m \<Rightarrow> m) \<rparr>"

subsection \<open>Internal helpers\<close>

text \<open>\<open>_extract_json_block\<close>.\<close>

definition no_json_message :: pystr where
  "no_json_message = py ''No JSON object found in the model response''"

definition extract_json_block :: "pystr \<Rightarrow> py_exc + pystr" where
  "extract_json_block text =
     (let start = str_find text lbrace;
          end = str_rfind text rbrace
      in if start = -1 \<or> end = -1 then Inl (ValueError no_json_message)
         else Inr (py_slice text start (end + 1)))"

text \<open>
  \<open>_build_prompt\<close>.  \<open>json.dumps(_, indent=2)\<close> belongs to the standard library and is
  the parameter \<open>dumps\<close>.  Code point 8212 is the em dash of the instruction.
\<close>

definition prompt_instruction :: pystr where
  "prompt_instruction =
     py ''The following is an ITDB fact sheet. Parse its contents and output ''
     @ py ''**only** a JSON object that matches this schema exactly'' @ [8212]
     @ py ''no additional keys and no prose:\<newline>\<newline>''"

definition begin_marker :: pystr where
  "begin_marker = py ''--- BEGIN FACT SHEET ---''"

definition end_marker :: pystr where
  "end_marker = py ''--- END FACT SHEET ---''"

definition build_prompt :: "(json \<Rightarrow> pystr) \<Rightarrow> pystr \<Rightarrow> pystr" where
  "build_prompt dumps raw_text =
     (let schema_str = dumps SCHEMA
      in prompt_instruction
         @ schema_str @ py ''\<newline>\<newline>''
         @ begin_marker @ py ''\<newline>''
         @ raw_text @ py ''\<newline>''
         @ end_marker)"

subsection \<open>\<open>JSONExtractor.extract\<close>\<close>

definition system_content :: pystr where
  "system_content =
     py ''You are a data'' @ [8209] @ py ''extraction assistant. ''
     @ py ''Respond **only** with a JSON object matching the schema provided. ''
     @ py ''Do not output any explanatory text.''"

text \<open>The keyword arguments of \<open>chat.completions.create\<close>.\<close>

definition create_request :: "'s JSONExtractor \<Rightarrow> pystr \<Rightarrow> chat_request" where
  "create_request self prompt =
     \<lparr> req_model = self_deployment self,
       req_messages =
         [\<lparr> msg_role = py ''system'', msg_content = system_content \<rparr>,
          \<lparr> msg_role = py ''user'', msg_content = prompt \<rparr>],
       req_max_tokens = self_max_tokens self,
       req_temperature = self_temperature self,
       req_top_p = 1 \<rparr>"

text \<open>\<open>response.choices[0].message.content.strip()\<close>: indexing an empty list raises
  \<open>IndexError\<close>, and \<open>None\<close> has no \<open>strip\<close>.\<close>

definition response_content :: "chat_response \<Rightarrow> py_exc + pystr" where
  "response_content response =
     (case choices response of
        [] \<Rightarrow> Inl IndexError
      | c # _ \<Rightarrow> (case c of None \<Rightarrow> Inl AttributeError | Some s \<Rightarrow> Inr (py_strip s)))"

text \<open>
  The statements of the \<open>try\<close> block after the call has returned.  \<open>json.loads\<close>
  belongs to the standard library and is the parameter \<open>loads\<close>: \<open>None\<close> when it raises
  \<open>JSONDecodeError\<close>, the parsed value otherwise.
\<close>

definition parse_response :: "(pystr \<Rightarrow> 'j option) \<Rightarrow> chat_response \<Rightarrow> py_exc + 'j" where
  "parse_response loads response =
     (case response_content response of
        Inl e \<Rightarrow> Inl e
      | Inr content \<Rightarrow>
          (case extract_json_block content of
             Inl e \<Rightarrow> Inl e
           | Inr json_str \<Rightarrow>
               (case loads json_str of None \<Rightarrow> Inl JSONDecodeError | Some v \<Rightarrow> Inr v)))"

text \<open>The whole \<open>try\<close> block: one call of the client, then the parsing of its response.\<close>

definition try_block ::
  "'s JSONExtractor \<Rightarrow> (pystr \<Rightarrow> 'j option) \<Rightarrow> pystr \<Rightarrow> 's world \<Rightarrow> (py_exc + 'j) \<times> 's world" where
  "try_block self loads prompt w =
     (let request = create_request self prompt;
          (outcome, s) = self_client self request (cstate w);
          w' = w\<lparr> cstate := s, sent := sent w @ [request] \<rparr>
      in case outcome of
           Inl e \<Rightarrow> (Inl e, w')
         | Inr response \<Rightarrow> (parse_response loads response, w'))"

definition exhausted_message :: "int \<Rightarrow> pystr" where
  "exhausted_message max_retries =
     py ''Failed to extract JSON after '' @ py_str_int max_retries @ py '' attempts''"

text \<open>
  The \<open>for\<close> loop over the attempt numbers that are left, and the \<open>raise\<close> after it.
  An exception that is an \<open>Exception\<close> is logged and the loop goes on; any other
  leaves \<open>extract\<close> at once.
\<close>

fun extract_loop ::
  "'s JSONExtractor \<Rightarrow> (pystr \<Rightarrow> 'j option) \<Rightarrow> pystr \<Rightarrow> int list \<Rightarrow> 's world
     \<Rightarrow> (py_exc + 'j) \<times> 's world" where
  "extract_loop self loads prompt [] w =
     (Inl (RuntimeError (exhausted_message (self_max_retries self))), w)"
| "extract_loop self loads prompt (attempt # rest) w =
     (case try_block self loads prompt w of
        (Inr v, w') \<Rightarrow> (Inr v, w')
      | (Inl exc, w') \<Rightarrow>
          if is_Exception exc
          then extract_loop self loads prompt rest (w'\<lparr> logged := logged w' @ [(attempt, exc)] \<rparr>)
          else (Inl exc, w'))"

definition JSONExtractor_extract ::
  "'s JSONExtractor \<Rightarrow> (pystr \<Rightarrow> 'j option) \<Rightarrow> (json \<Rightarrow> pystr) \<Rightarrow> pystr \<Rightarrow> 's world
     \<Rightarrow> (py_exc + 'j) \<times> 's world" where
  "JSONExtractor_extract self loads dumps raw_text w =
     (let prompt = build_prompt dumps raw_text
      in extract_loop self loads prompt [1 .. self_max_retries self] w)"

subsection \<open>The functional helper\<close>


section \<open>\<open>pdf_parser\<close>\<close>

type_synonym pybytes = "nat list"

text \<open>
  \<open>extract_text_from_pdf\<close> as the file has it.  Lines 59 to 61 (the \<open>with\<close> block and
  the \<open>return\<close>) are indented at module level, outside the \<open>def\<close>; the body that the
  \<open>def\<close> statement holds is its docstring alone.  A call therefore returns \<open>None\<close>
  and never opens the document, whatever \<open>fitz.open\<close> (the parameter \<open>fitz_open\<close>)
  would do.
\<close>

definition extract_text_from_pdf ::
  "(pybytes \<Rightarrow> 'w \<Rightarrow> (py_exc + 'doc) \<times> 'w) \<Rightarrow> pybytes \<Rightarrow> 'w \<Rightarrow> (py_exc + pystr option) \<times> 'w"
  where
  "extract_text_from_pdf fitz_open pdf_bytes w = (Inr None, w)"

text \<open>
  \<open>parse_and_embed\<close> calls five collaborators.  Each takes the state of the outside
  world and either raises or returns, with the next state.  The name
  \<open>extract_text_from_pdf\<close> is a module global looked up at the call, so it is a field
  as well; the type \<open>'t\<close> of what it returns is left open.
\<close>

datatype document = Document (page_content: pystr)

record ('w, 't, 'sp, 'emb, 'vs, 'vec) pdf_env =
  env_extract_text_from_pdf :: "pybytes \<Rightarrow> 'w \<Rightarrow> (py_exc + 't) \<times> 'w"
  env_RecursiveCharacterTextSplitter :: "int \<Rightarrow> int \<Rightarrow> 'w \<Rightarrow> (py_exc + 'sp) \<times> 'w"
  env_split_text :: "'sp \<Rightarrow> 't \<Rightarrow> 'w \<Rightarrow> (py_exc + pystr list) \<times> 'w"
  env_FAISS_from_documents :: "document list \<Rightarrow> 'emb \<Rightarrow> 'w \<Rightarrow> (py_exc + 'vs) \<times> 'w"
  env_embed_documents :: "'emb \<Rightarrow> pystr list \<Rightarrow> 'w \<Rightarrow> (py_exc + 'vec list) \<times> 'w"

text \<open>The calls made so far, in order: one event per call of a collaborator.\<close>

datatype pdf_event =
    Ev_extract_text_from_pdf
  | Ev_RecursiveCharacterTextSplitter int int
  | Ev_split_text
  | Ev_FAISS_from_documents
  | Ev_embed_documents

definition call_ext ::
  "pdf_event \<Rightarrow> ('w \<Rightarrow> (py_exc + 'a) \<times> 'w) \<Rightarrow> 'w \<times> pdf_event list
     \<Rightarrow> (py_exc + 'a) \<times> ('w \<times> pdf_event list)" where
  "call_ext ev f st = (let (r, w') = f (fst st) in (r, (w', snd st @ [ev])))"

definition default_chunk_size :: int where
  "default_chunk_size = 1200"

definition default_chunk_overlap :: int where
  "default_chunk_overlap = 240"

text \<open>
  \<open>parse_and_embed\<close>, statement by statement.  It has no \<open>try\<close>: an exception of a
  collaborator ends it.  The result is the vector store (\<open>Inl\<close>) or the list of
  documents paired with their vectors (\<open>Inr\<close>).
\<close>

definition parse_and_embed ::
  "('w, 't, 'sp, 'emb, 'vs, 'vec) pdf_env \<Rightarrow> pybytes \<Rightarrow> 'emb \<Rightarrow> int \<Rightarrow> int \<Rightarrow> bool
     \<Rightarrow> 'w \<times> pdf_event list
     \<Rightarrow> (py_exc + ('vs + (document \<times> 'vec) list)) \<times> ('w \<times> pdf_event list)" where
  "parse_and_embed env pdf_bytes embeddings_client chunk_size chunk_overlap return_vectorstore st0 =
     (case call_ext Ev_extract_text_from_pdf (env_extract_text_from_pdf env pdf_bytes) st0 of
        (Inl e, st1) \<Rightarrow> (Inl e, st1)
      | (Inr raw_text, st1) \<Rightarrow>
     (case call_ext (Ev_RecursiveCharacterTextSplitter chunk_size chunk_overlap)
             (env_RecursiveCharacterTextSplitter env chunk_size chunk_overlap) st1 of
        (Inl e, st2) \<Rightarrow> (Inl e, st2)
      | (Inr splitter, st2) \<Rightarrow>
     (case call_ext Ev_split_text (env_split_text env splitter raw_text) st2 of
        (Inl e, st3) \<Rightarrow> (Inl e, st3)
      | (Inr txts, st3) \<Rightarrow>
          (let docs = map Document txts
           in if return_vectorstore
              then (case call_ext Ev_FAISS_from_documents
                           (env_FAISS_from_documents env docs embeddings_client) st3 of
                      (Inl e, st4) \<Rightarrow> (Inl e, st4)
                    | (Inr store, st4) \<Rightarrow> (Inr (Inl store), st4))
              else (case call_ext Ev_embed_documents
                           (env_embed_documents env embeddings_client (map page_content docs)) st3 of
                      (Inl e, st4) \<Rightarrow> (Inl e, st4)
                    | (Inr vectors, st4) \<Rightarrow> (Inr (Inr (zip docs vectors)), st4))))))"



section \<open>Sequences of model responses\<close>

text \<open>
  The outcomes that a client gives to \<open>n\<close> calls in a row with one request, from a
  hidden state, and the hidden state after them.
\<close>

fun client_outcomes ::
  "'s client \<Rightarrow> chat_request \<Rightarrow> nat \<Rightarrow> 's \<Rightarrow> (py_exc + chat_response) list" where
  "client_outcomes c request 0 s = []"
| "client_outcomes c request (Suc n) s =
     (case c request s of (outcome, s') \<Rightarrow> outcome # client_outcomes c request n s')"

fun client_state_after :: "'s client \<Rightarrow> chat_request \<Rightarrow> nat \<Rightarrow> 's \<Rightarrow> 's" where
  "client_state_after c request 0 s = s"
| "client_state_after c request (Suc n) s =
     (case c request s of (outcome, s') \<Rightarrow> client_state_after c request n s')"

text \<open>What the \<open>try\<close> block makes of one outcome of the client.\<close>

definition attempt_result ::
  "(pystr \<Rightarrow> 'j option) \<Rightarrow> py_exc + chat_response \<Rightarrow> py_exc + 'j" where
  "attempt_result loads outcome =
     (case outcome of Inl e \<Rightarrow> Inl e | Inr response \<Rightarrow> parse_response loads response)"

text \<open>An attempt fails, and the loop goes on, when its result is an \<open>Exception\<close>.\<close>

definition attempt_fails :: "(pystr \<Rightarrow> 'j option) \<Rightarrow> py_exc + chat_response \<Rightarrow> bool" where
  "attempt_fails loads outcome =
     (case attempt_result loads outcome of Inl e \<Rightarrow> is_Exception e | Inr v \<Rightarrow> False)"

section \<open>Test doubles\<close>

text \<open>A client that plays back a script of outcomes, one per call, whatever the request.\<close>

definition scripted_client :: "(py_exc + chat_response) list client" where
  "scripted_client request script =
     (case script of
        [] \<Rightarrow> (Inl (OtherException (py ''ScriptExhausted'')), [])
      | outcome # rest \<Rightarrow> (outcome, rest))"

definition text_response :: "pystr \<Rightarrow> py_exc + chat_response" where
  "text_response s = Inr \<lparr> choices = [Some s] \<rparr>"

text \<open>\<open>json.loads\<close> on the documents of the examples: two objects, and no other
  well-formed document.\<close>

definition sample_loads :: "pystr \<Rightarrow> json option" where
  \<open>sample_loads s =
     (if s = py ''{"year": 2020}'' then Some (JDict [(py ''year'', JInt 2020)])
      else if s = py ''{"foo": 1}'' then Some (JDict [(py ''foo'', JInt 1)])
      else None)\<close>

text \<open>\<open>json.dumps\<close> is not computed in the examples: a fixed string stands for it.\<close>

definition sample_dumps :: "json \<Rightarrow> pystr" where
  "sample_dumps v = py ''<schema>''"

definition sample_extractor :: "int \<Rightarrow> (py_exc + chat_response) list JSONExtractor" where
  "sample_extractor max_retries =
     JSONExtractor_init scripted_client (py ''gpt-4o-mini'') None (Some max_retries) None"

definition empty_world :: "'s \<Rightarrow> 's world" where
  "empty_world s = \<lparr> cstate = s, sent = [], logged = [] \<rparr>"


text \<open>
  The double of \<open>fitz.open\<close> in \<open>test_extract_text_uses_context_manager\<close>: the
  document is the list of its pages' texts, and the outside state is the pair of the
  flags \<open>entered\<close> and \<open>exited\<close>, which only a \<open>with\<close> statement would set.
\<close>

definition fake_open :: "pybytes \<Rightarrow> bool \<times> bool \<Rightarrow> (py_exc + pystr list) \<times> (bool \<times> bool)" where
  "fake_open pdf_bytes w = (Inr [py ''a'', py ''b''], w)"

section \<open>Facts about the string operations\<close>

lemma str_find_ge: "- 1 \<le> str_find xs c"
  by (induction xs) (auto simp: Let_def)

lemma str_find_absent: "str_find xs c = -1 \<longleftrightarrow> c \<notin> set xs"
proof (induction xs)
  case Nil
  show ?case by simp
next
  case (Cons x xs)
  then show ?case using str_find_ge [of xs c] by (auto simp: Let_def)
qed

lemma str_rfind_ge: "- 1 \<le> str_rfind xs c"
  by (induction xs) (auto simp: Let_def)

lemma str_rfind_absent: "str_rfind xs c = -1 \<longleftrightarrow> c \<notin> set xs"
proof (induction xs)
  case Nil
  show ?case by simp
next
  case (Cons x xs)
  then show ?case using str_rfind_ge [of xs c] by (auto simp: Let_def)
qed

lemma str_rfind_less: "str_rfind xs c < int (length xs)"
  by (induction xs) (auto simp: Let_def)

lemma str_find_append_absent:
  "c \<notin> set xs \<Longrightarrow> c \<in> set ys \<Longrightarrow> str_find (xs @ ys) c = int (length xs) + str_find ys c"
  by (induction xs) (auto simp: Let_def str_find_absent)

lemma str_rfind_append_absent:
  "c \<notin> set ys \<Longrightarrow> str_rfind (xs @ ys) c = str_rfind xs c"
proof (induction xs)
  case Nil
  then show ?case using str_rfind_absent [of ys c] by simp
next
  case (Cons x xs)
  then show ?case by (simp add: Let_def)
qed

lemma set_py_strip: "set (py_strip s) \<subseteq> set s"
  by (auto simp: py_strip_def dest!: set_dropWhileD)

lemma locator_raises:
  assumes "lbrace \<notin> set text \<or> rbrace \<notin> set text"
  shows "extract_json_block text = Inl (ValueError no_json_message)"
  using assms by (auto simp: extract_json_block_def Let_def str_find_absent str_rfind_absent)

lemma locator_reversed:
  assumes "text = xs @ ys"
    and "rbrace \<in> set xs" and "lbrace \<notin> set xs"
    and "lbrace \<in> set ys" and "rbrace \<notin> set ys"
  shows "extract_json_block text = Inr []"
proof -
  have s: "str_find text lbrace = int (length xs) + str_find ys lbrace"
    using assms by (simp add: str_find_append_absent)
  have s0: "0 \<le> str_find ys lbrace"
    using str_find_ge [of ys lbrace] str_find_absent [of ys lbrace] assms(4) by linarith
  have e: "str_rfind text rbrace = str_rfind xs rbrace"
    using assms by (simp add: str_rfind_append_absent)
  have e0: "0 \<le> str_rfind xs rbrace"
    using str_rfind_ge [of xs rbrace] str_rfind_absent [of xs rbrace] assms(2) by linarith
  have e1: "str_rfind xs rbrace < int (length xs)" by (rule str_rfind_less)
  show ?thesis
    using s s0 e e0 e1 assms(1)
    by (simp add: extract_json_block_def Let_def py_slice_def)
qed

lemma mem_dropWhile: "x \<in> set xs \<Longrightarrow> \<not> P x \<Longrightarrow> x \<in> set (dropWhile P xs)"
  by (induction xs) auto

lemma py_strip_append:
  assumes "a \<in> set xs" and "\<not> py_isspace a" and "b \<in> set ys" and "\<not> py_isspace b"
  shows "py_strip (xs @ ys) = dropWhile py_isspace xs @ rev (dropWhile py_isspace (rev ys))"
proof -
  have 1: "dropWhile py_isspace (xs @ ys) = dropWhile py_isspace xs @ ys"
    using assms(1,2) by (rule dropWhile_append1)
  have "b \<in> set (rev ys)" using assms(3) by simp
  then have 2: "dropWhile py_isspace (rev ys @ rev (dropWhile py_isspace xs)) =
      dropWhile py_isspace (rev ys) @ rev (dropWhile py_isspace xs)"
    using assms(4) by (rule dropWhile_append1)
  show ?thesis by (simp add: py_strip_def 1 2)
qed

lemma braces_not_space: "\<not> py_isspace lbrace" "\<not> py_isspace rbrace"
  by (simp_all add: py_isspace_def lbrace_def rbrace_def)

text \<open>
  Whitespace around a text does not change what the locator makes of it, so the
  \<open>strip\<close> before the locator has no effect on the block.
\<close>

lemma str_find_less: "str_find xs c < int (length xs)"
  by (induction xs) (auto simp: Let_def)

lemma str_find_append:
  "str_find (xs @ ys) c =
     (if c \<in> set xs then str_find xs c
      else if c \<in> set ys then int (length xs) + str_find ys c else -1)"
proof (induction xs)
  case Nil
  show ?case using str_find_absent [of ys c] by simp
next
  case (Cons x xs)
  then show ?case
    using str_find_absent [of xs c] str_find_absent [of ys c] str_find_ge [of ys c]
    by (auto simp: Let_def)
qed

lemma str_rfind_append:
  "str_rfind (xs @ ys) c =
     (if c \<in> set ys then int (length xs) + str_rfind ys c else str_rfind xs c)"
proof (induction xs)
  case Nil
  show ?case using str_rfind_absent [of ys c] by simp
next
  case (Cons x xs)
  then show ?case
    using str_rfind_absent [of xs c] str_rfind_absent [of ys c] str_rfind_ge [of ys c]
    by (auto simp: Let_def)
qed

lemma py_slice_nonneg:
  assumes "0 \<le> i" and "0 \<le> j"
  shows "py_slice xs i j = take (nat (min j (int (length xs))) - nat (min i (int (length xs))))
                             (drop (nat (min i (int (length xs)))) xs)"
  using assms by (simp add: py_slice_def Let_def nat_diff_distrib')

lemma py_slice_prepend:
  assumes "0 \<le> i" and "0 \<le> j"
  shows "py_slice (ws @ t) (int (length ws) + i) (int (length ws) + j) = py_slice t i j"
proof -
  have lo: "nat (min (int (length ws) + i) (int (length (ws @ t)))) =
            length ws + nat (min i (int (length t)))"
    using assms(1) by (simp add: min_def nat_add_distrib)
  have hi: "nat (min (int (length ws) + j) (int (length (ws @ t)))) =
            length ws + nat (min j (int (length t)))"
    using assms(2) by (simp add: min_def nat_add_distrib)
  have "py_slice (ws @ t) (int (length ws) + i) (int (length ws) + j) =
        take (length ws + nat (min j (int (length t))) - (length ws + nat (min i (int (length t)))))
          (drop (length ws + nat (min i (int (length t)))) (ws @ t))"
    using assms by (subst py_slice_nonneg) (simp_all only: lo hi add_nonneg_nonneg of_nat_0_le_iff)
  also have "\<dots> = take (nat (min j (int (length t))) - nat (min i (int (length t))))
          (drop (nat (min i (int (length t)))) t)"
    by simp
  also have "\<dots> = py_slice t i j"
    using assms by (simp only: py_slice_nonneg)
  finally show ?thesis .
qed

lemma py_slice_append:
  assumes "0 \<le> i" and "0 \<le> j" and "j \<le> int (length t)"
  shows "py_slice (t @ ws) i j = py_slice t i j"
proof (cases "i \<le> int (length t)")
  case True
  have k: "nat j - nat i \<le> length (drop (nat i) t)"
    using assms(2,3) by simp
  have "py_slice (t @ ws) i j = take (nat j - nat i) (drop (nat i) (t @ ws))"
    using assms True by (simp add: py_slice_nonneg min_def)
  also have "\<dots> = take (nat j - nat i) (drop (nat i) t)"
    using k True assms(1) by simp
  also have "\<dots> = py_slice t i j"
    using assms True by (simp add: py_slice_nonneg min_def)
  finally show ?thesis .
next
  case False
  then have "j \<le> min i (int (length (t @ ws)))"
    using assms by (simp add: min_def)
  then have "nat j \<le> nat (min i (int (length (t @ ws))))"
    by (rule nat_mono)
  then have "py_slice (t @ ws) i j = []"
    using assms(1,2) by (simp add: py_slice_nonneg)
  moreover have "py_slice t i j = []"
    using assms False by (simp add: py_slice_nonneg min_def)
  ultimately show ?thesis by simp
qed


lemma locator_returns:
  assumes "lbrace \<in> set t" and "rbrace \<in> set t"
  shows "extract_json_block t = Inr (py_slice t (str_find t lbrace) (str_rfind t rbrace + 1))"
  using assms by (simp add: extract_json_block_def Let_def str_find_absent str_rfind_absent)

lemma str_find_present: "c \<in> set xs \<Longrightarrow> 0 \<le> str_find xs c"
  using str_find_ge [of xs c] str_find_absent [of xs c] by linarith

lemma str_rfind_present: "c \<in> set xs \<Longrightarrow> 0 \<le> str_rfind xs c"
  using str_rfind_ge [of xs c] str_rfind_absent [of xs c] by linarith

lemma block_prepend:
  assumes "lbrace \<notin> set ws" and "rbrace \<notin> set ws"
  shows "extract_json_block (ws @ t) = extract_json_block t"
proof (cases "lbrace \<in> set t \<and> rbrace \<in> set t")
  case False
  then have "lbrace \<notin> set (ws @ t) \<or> rbrace \<notin> set (ws @ t)" using assms by auto
  then have "extract_json_block (ws @ t) = Inl (ValueError no_json_message)"
    by (rule locator_raises)
  moreover from False have "extract_json_block t = Inl (ValueError no_json_message)"
    by (intro locator_raises) blast
  ultimately show ?thesis by simp
next
  case True
  then have l: "lbrace \<in> set t" and r: "rbrace \<in> set t" by simp_all
  have s: "str_find (ws @ t) lbrace = int (length ws) + str_find t lbrace"
    using assms l by (simp add: str_find_append)
  have e: "str_rfind (ws @ t) rbrace + 1 = int (length ws) + (str_rfind t rbrace + 1)"
    using assms r by (simp add: str_rfind_append)
  have "extract_json_block (ws @ t) =
        Inr (py_slice (ws @ t) (str_find (ws @ t) lbrace) (str_rfind (ws @ t) rbrace + 1))"
    using l r by (intro locator_returns) simp_all
  also have "\<dots> = Inr (py_slice (ws @ t) (int (length ws) + str_find t lbrace)
                        (int (length ws) + (str_rfind t rbrace + 1)))"
    by (simp only: s e)
  also have "\<dots> = Inr (py_slice t (str_find t lbrace) (str_rfind t rbrace + 1))"
    using str_find_present [OF l] str_rfind_present [OF r] by (simp only: py_slice_prepend)
  also have "\<dots> = extract_json_block t"
    using l r by (simp only: locator_returns)
  finally show ?thesis .
qed

lemma block_append:
  assumes "lbrace \<notin> set ws" and "rbrace \<notin> set ws"
  shows "extract_json_block (t @ ws) = extract_json_block t"
proof (cases "lbrace \<in> set t \<and> rbrace \<in> set t")
  case False
  then have "lbrace \<notin> set (t @ ws) \<or> rbrace \<notin> set (t @ ws)" using assms by auto
  then have "extract_json_block (t @ ws) = Inl (ValueError no_json_message)"
    by (rule locator_raises)
  moreover from False have "extract_json_block t = Inl (ValueError no_json_message)"
    by (intro locator_raises) blast
  ultimately show ?thesis by simp
next
  case True
  then have l: "lbrace \<in> set t" and r: "rbrace \<in> set t" by simp_all
  have s: "str_find (t @ ws) lbrace = str_find t lbrace"
    using l by (simp add: str_find_append)
  have e: "str_rfind (t @ ws) rbrace = str_rfind t rbrace"
    using assms by (simp add: str_rfind_append)
  have e1: "str_rfind t rbrace + 1 \<le> int (length t)"
    using str_rfind_less [of t rbrace] by simp
  have e0: "0 \<le> str_rfind t rbrace + 1"
    using str_rfind_present [OF r] by simp
  have "extract_json_block (t @ ws) =
        Inr (py_slice (t @ ws) (str_find (t @ ws) lbrace) (str_rfind (t @ ws) rbrace + 1))"
    using l r by (intro locator_returns) simp_all
  also have "\<dots> = Inr (py_slice (t @ ws) (str_find t lbrace) (str_rfind t rbrace + 1))"
    by (simp only: s e)
  also have "\<dots> = Inr (py_slice t (str_find t lbrace) (str_rfind t rbrace + 1))"
    using str_find_present [OF l] e0 e1 by (simp only: py_slice_append)
  also have "\<dots> = extract_json_block t"
    using l r by (simp only: locator_returns)
  finally show ?thesis .
qed

lemma spaces_no_braces:
  assumes "\<forall>c \<in> set ws. py_isspace c"
  shows "lbrace \<notin> set ws" and "rbrace \<notin> set ws"
  using assms braces_not_space by blast+

lemma py_strip_decompose:
  "\<exists>ws1 ws2. s = ws1 @ py_strip s @ ws2
      \<and> (\<forall>c \<in> set ws1. py_isspace c) \<and> (\<forall>c \<in> set ws2. py_isspace c)"
proof -
  let ?d = "dropWhile py_isspace s"
  let ?ws1 = "takeWhile py_isspace s"
  let ?ws2 = "rev (takeWhile py_isspace (rev ?d))"
  have 1: "s = ?ws1 @ ?d" by simp
  have "rev (rev ?d) = rev (takeWhile py_isspace (rev ?d) @ dropWhile py_isspace (rev ?d))"
    by (simp only: takeWhile_dropWhile_id)
  also have "\<dots> = rev (dropWhile py_isspace (rev ?d)) @ rev (takeWhile py_isspace (rev ?d))"
    by (rule rev_append)
  finally have 2: "?d = py_strip s @ ?ws2"
    by (simp only: rev_rev_ident py_strip_def)
  have 3: "\<forall>c \<in> set ?ws1. py_isspace c"
    by (auto dest: set_takeWhileD)
  have 4: "\<forall>c \<in> set ?ws2. py_isspace c"
    by (auto dest: set_takeWhileD)
  from 1 2 have "s = ?ws1 @ py_strip s @ ?ws2" by (simp only:)
  with 3 4 show ?thesis by blast
qed


lemma block_strip: "extract_json_block (py_strip s) = extract_json_block s"
proof -
  obtain ws1 ws2 where s: "s = ws1 @ py_strip s @ ws2"
    and w1: "\<forall>c \<in> set ws1. py_isspace c" and w2: "\<forall>c \<in> set ws2. py_isspace c"
    using py_strip_decompose by blast
  have "extract_json_block (ws1 @ py_strip s @ ws2) = extract_json_block (py_strip s @ ws2)"
    using spaces_no_braces [OF w1] by (rule block_prepend)
  also have "\<dots> = extract_json_block (py_strip s)"
    using spaces_no_braces [OF w2] by (rule block_append)
  finally show ?thesis using s by simp
qed

section \<open>Facts about the retry loop\<close>

lemma try_block_eq:
  "try_block self loads prompt w =
     (attempt_result loads (fst (self_client self (create_request self prompt) (cstate w))),
      w\<lparr> cstate := snd (self_client self (create_request self prompt) (cstate w)),
         sent := sent w @ [create_request self prompt] \<rparr>)"
  by (simp add: try_block_def attempt_result_def Let_def split: prod.splits sum.splits)

lemma extract_loop_fail_step:
  assumes "attempt_fails loads (fst (self_client self (create_request self prompt) (cstate w)))"
  shows "extract_loop self loads prompt (a # as) w =
     extract_loop self loads prompt as
       (w\<lparr> cstate := snd (self_client self (create_request self prompt) (cstate w)),
          sent := sent w @ [create_request self prompt],
          logged := logged w @
            [(a, projl (attempt_result loads
                   (fst (self_client self (create_request self prompt) (cstate w)))))] \<rparr>)"
  using assms
  by (auto simp: try_block_eq attempt_fails_def split: sum.splits)

lemma extract_loop_success_step:
  assumes "attempt_result loads (fst (self_client self (create_request self prompt) (cstate w))) = Inr v"
  shows "extract_loop self loads prompt (a # as) w =
     (Inr v, w\<lparr> cstate := snd (self_client self (create_request self prompt) (cstate w)),
          sent := sent w @ [create_request self prompt] \<rparr>)"
  using assms
  by (simp add: try_block_eq)



lemma length_client_outcomes: "length (client_outcomes c request n s) = n"
  by (induction n arbitrary: s) (auto split: prod.splits)

lemma extract_loop_first_success:
  assumes "client_outcomes (self_client self) (create_request self prompt)
             (Suc (length failures)) (cstate w) = failures @ [success]"
    and "\<forall>outcome \<in> set failures. attempt_fails loads outcome"
    and "attempt_result loads success = Inr v"
    and "length failures < length as"
  shows "extract_loop self loads prompt as w =
     (Inr v,
      w\<lparr> cstate := client_state_after (self_client self) (create_request self prompt)
                     (Suc (length failures)) (cstate w),
         sent := sent w @ replicate (Suc (length failures)) (create_request self prompt),
         logged := logged w @ zip as
           (map (\<lambda>outcome. projl (attempt_result loads outcome)) failures) \<rparr>)"
  using assms
proof (induction failures arbitrary: w as)
  case Nil
  from Nil.prems(4) obtain a as' where as: "as = a # as'" by (cases as) auto
  obtain outcome s' where c: "self_client self (create_request self prompt) (cstate w) = (outcome, s')"
    by (cases "self_client self (create_request self prompt) (cstate w)")
  with Nil.prems(1) have "outcome = success" by simp
  with Nil.prems(3) c as show ?case
    using extract_loop_success_step [of loads self prompt w v a as'] by simp
next
  case (Cons f fs)
  from Cons.prems(4) obtain a as' where as: "as = a # as'" by (cases as) auto
  obtain outcome s' where c: "self_client self (create_request self prompt) (cstate w) = (outcome, s')"
    by (cases "self_client self (create_request self prompt) (cstate w)")
  with Cons.prems(1) have o: "outcome = f"
    and rest: "client_outcomes (self_client self) (create_request self prompt)
                 (Suc (length fs)) s' = fs @ [success]"
    by simp_all
  from Cons.prems(2) have f: "attempt_fails loads f"
    and fs: "\<forall>outcome \<in> set fs. attempt_fails loads outcome" by simp_all
  let ?w = "w\<lparr> cstate := s', sent := sent w @ [create_request self prompt],
          logged := logged w @ [(a, projl (attempt_result loads f))] \<rparr>"
  have step: "extract_loop self loads prompt (a # as') w = extract_loop self loads prompt as' ?w"
    using extract_loop_fail_step [of loads self prompt w a as'] f c o by simp
  have len: "length fs < length as'" using Cons.prems(4) as by simp
  have "cstate ?w = s'" by simp
  with rest have rest': "client_outcomes (self_client self) (create_request self prompt)
                 (Suc (length fs)) (cstate ?w) = fs @ [success]" by simp
  have "extract_loop self loads prompt as' ?w =
     (Inr v,
      ?w\<lparr> cstate := client_state_after (self_client self) (create_request self prompt)
                     (Suc (length fs)) (cstate ?w),
         sent := sent ?w @ replicate (Suc (length fs)) (create_request self prompt),
         logged := logged ?w @ zip as'
           (map (\<lambda>outcome. projl (attempt_result loads outcome)) fs) \<rparr>)"
    by (rule Cons.IH [OF rest' fs Cons.prems(3) len])
  with step c as show ?case
    by (simp add: replicate_app_Cons_same)
qed

lemma extract_loop_sent:
  "\<exists>n. min 1 (length as) \<le> n \<and> n \<le> length as \<and>
     sent (snd (extract_loop self loads prompt as w)) =
       sent w @ replicate n (create_request self prompt)"
proof (induction as arbitrary: w)
  case Nil
  show ?case by simp
next
  case (Cons a as)
  let ?o = "fst (self_client self (create_request self prompt) (cstate w))"
  let ?s = "snd (self_client self (create_request self prompt) (cstate w))"
  show ?case
  proof (cases "attempt_fails loads ?o")
    case True
    let ?w = "w\<lparr> cstate := ?s, sent := sent w @ [create_request self prompt],
          logged := logged w @ [(a, projl (attempt_result loads ?o))] \<rparr>"
    from Cons.IH [of ?w] obtain n where n: "n \<le> length as"
      and eq: "sent (snd (extract_loop self loads prompt as ?w)) =
          sent ?w @ replicate n (create_request self prompt)" by blast
    have "sent (snd (extract_loop self loads prompt (a # as) w)) =
       sent w @ replicate (Suc n) (create_request self prompt)"
      using extract_loop_fail_step [OF True, of a as] eq by (simp add: replicate_app_Cons_same)
    with n show ?thesis by (intro exI [of _ "Suc n"]) simp
  next
    case False
    then have "sent (snd (extract_loop self loads prompt (a # as) w)) =
       sent w @ replicate (Suc 0) (create_request self prompt)"
      by (auto simp: try_block_eq attempt_fails_def split: sum.splits)
    then show ?thesis by (intro exI [of _ "Suc 0"]) simp
  qed
qed

lemma take_upto_from_1: "n \<le> nat m \<Longrightarrow> take n [1 .. m] = [1 .. int n]"
proof (induction n)
  case 0
  show ?case by simp
next
  case (Suc n)
  then have lt: "n < length [1 .. m]" by simp
  have "take (Suc n) [1 .. m] = take n [1 .. m] @ [[1 .. m] ! n]"
    using lt by (rule take_Suc_conv_app_nth)
  also have "[1 .. m] ! n = 1 + int n"
    using Suc.prems by (simp add: nth_upto)
  also have "take n [1 .. m] = [1 .. int n]" using Suc by simp
  also have "[1 .. int n] @ [1 + int n] = [1 .. int (Suc n)]"
    by (simp add: upto_rec2 add.commute)
  finally show ?case .
qed

lemma extract_unfold:
  "JSONExtractor_extract self loads dumps raw_text w =
     extract_loop self loads (build_prompt dumps raw_text) [1 .. self_max_retries self] w"
  by (simp add: JSONExtractor_extract_def)

text \<open>
  Two cases outside the claims.  With no attempt configured the loop body never runs,
  and the message carries the configured number as it is.  An exception that is not an
  \<open>Exception\<close> ends \<open>extract\<close> in the attempt that met it, without a log record.
\<close>

lemma extract_without_attempts:
  assumes "self_max_retries self \<le> 0"
  shows "JSONExtractor_extract self loads dumps raw_text w =
           (Inl (RuntimeError (exhausted_message (self_max_retries self))), w)"
  using assms by (simp add: extract_unfold)

lemma extract_loop_propagates:
  assumes "attempt_result loads (fst (self_client self (create_request self prompt) (cstate w))) = Inl e"
    and "\<not> is_Exception e"
  shows "extract_loop self loads prompt (a # as) w =
     (Inl e, w\<lparr> cstate := snd (self_client self (create_request self prompt) (cstate w)),
          sent := sent w @ [create_request self prompt] \<rparr>)"
  using assms by (simp add: try_block_eq)

lemmas sample_defs =
  sample_extractor_def JSONExtractor_init_def empty_world_def scripted_client_def
  text_response_def sample_loads_def

lemmas parse_defs =
  attempt_fails_def attempt_result_def parse_response_def response_content_def
  extract_json_block_def py_strip_def py_isspace_def py_slice_def py_def lbrace_def rbrace_def

section \<open>The properties of \<open>JSONExtractor\<close>\<close>



text \<open>
  Claim C2.  Let the first \<open>k\<close> outcomes of the client be failing ones followed by one
  whose response parses to \<open>v\<close>, with \<open>k\<close> within the configured attempts.  Then
  \<open>extract\<close> returns \<open>v\<close>, has sent exactly \<open>k\<close> requests, has logged the attempts
  \<open>1\<close> to \<open>k - 1\<close>, and leaves the client in the state after \<open>k\<close> calls: no call
  follows the successful one.
\<close>

theorem extract_returns_first_parseable:
  assumes "client_outcomes (self_client self) (create_request self (build_prompt dumps raw_text))
             k (cstate w) = failures @ [success]"
    and "\<forall>outcome \<in> set failures. attempt_fails loads outcome"
    and "attempt_result loads success = Inr v"
    and "int k \<le> self_max_retries self"
  shows "fst (JSONExtractor_extract self loads dumps raw_text w) = Inr v
       \<and> sent (snd (JSONExtractor_extract self loads dumps raw_text w)) =
           sent w @ replicate k (create_request self (build_prompt dumps raw_text))
       \<and> map fst (logged (snd (JSONExtractor_extract self loads dumps raw_text w))) =
           map fst (logged w) @ [1 .. int k - 1]
       \<and> cstate (snd (JSONExtractor_extract self loads dumps raw_text w)) =
           client_state_after (self_client self)
             (create_request self (build_prompt dumps raw_text)) k (cstate w)"
proof -
  let ?as = "[1 .. self_max_retries self]"
  have "length (client_outcomes (self_client self)
          (create_request self (build_prompt dumps raw_text)) k (cstate w)) = k"
    by (rule length_client_outcomes)
  with assms(1) have k: "k = Suc (length failures)" by simp
  have len: "length failures < length ?as" using assms(4) k by simp
  have take: "take (length failures) ?as = [1 .. int k - 1]"
    using take_upto_from_1 [of "length failures" "self_max_retries self"] assms(4) k by simp
  have "map fst (zip ?as (map (\<lambda>outcome. projl (attempt_result loads outcome)) failures)) =
          take (length failures) ?as"
    by (simp add: map_fst_zip_take min_def)
  with take have log: "map fst (zip ?as (map (\<lambda>outcome. projl (attempt_result loads outcome)) failures)) =
          [1 .. int k - 1]" by simp
  from extract_loop_first_success [OF assms(1) [unfolded k] assms(2) assms(3) len]
  show ?thesis
    using log k by (simp add: extract_unfold del: length_upto)
qed

text \<open>
  The theorem with three attempts configured, two invalid responses and a valid third:
  three requests are sent, the third record is returned, and the fourth scripted
  response is never asked for.
\<close>

theorem extract_returns_first_parseable_witness:
  \<open>fst (JSONExtractor_extract (sample_extractor 3) sample_loads sample_dumps (py ''Year 2020'')
          (empty_world [text_response (py ''Sorry, no data.''),
                        text_response (py ''{year: 2020}''),
                        text_response (py ''Here it is: {"year": 2020} ''),
                        text_response (py ''{"foo": 1}'')])) =
     Inr (JDict [(py ''year'', JInt 2020)])
   \<and> length (sent (snd (JSONExtractor_extract (sample_extractor 3) sample_loads sample_dumps
          (py ''Year 2020'')
          (empty_world [text_response (py ''Sorry, no data.''),
                        text_response (py ''{year: 2020}''),
                        text_response (py ''Here it is: {"year": 2020} ''),
                        text_response (py ''{"foo": 1}'')])))) = 3
   \<and> cstate (snd (JSONExtractor_extract (sample_extractor 3) sample_loads sample_dumps
          (py ''Year 2020'')
          (empty_world [text_response (py ''Sorry, no data.''),
                        text_response (py ''{year: 2020}''),
                        text_response (py ''Here it is: {"year": 2020} ''),
                        text_response (py ''{"foo": 1}'')]))) = [text_response (py ''{"foo": 1}'')]\<close>
proof -
  let ?w = \<open>empty_world [text_response (py ''Sorry, no data.''),
                        text_response (py ''{year: 2020}''),
                        text_response (py ''Here it is: {"year": 2020} ''),
                        text_response (py ''{"foo": 1}'')]\<close>
  let ?req = "create_request (sample_extractor 3) (build_prompt sample_dumps (py ''Year 2020''))"
  have h1: \<open>client_outcomes (self_client (sample_extractor 3)) ?req 3 (cstate ?w) =
      [text_response (py ''Sorry, no data.''), text_response (py ''{year: 2020}'')]
      @ [text_response (py ''Here it is: {"year": 2020} '')]\<close>
    by (simp add: sample_extractor_def JSONExtractor_init_def empty_world_def scripted_client_def
        numeral_3_eq_3)
  have h2: "\<forall>outcome \<in> set [text_response (py ''Sorry, no data.''),
                text_response (py ''{year: 2020}'')]. attempt_fails sample_loads outcome"
    by (simp add: sample_defs parse_defs)
  have h3: \<open>attempt_result sample_loads (text_response (py ''Here it is: {"year": 2020} '')) =
      Inr (JDict [(py ''year'', JInt 2020)])\<close>
    by (simp add: sample_defs parse_defs)
  have h4: "int 3 \<le> self_max_retries (sample_extractor 3)"
    by (simp add: sample_defs)
  from extract_returns_first_parseable [OF h1 h2 h3 h4]
  show ?thesis
    by (simp add: sample_extractor_def JSONExtractor_init_def empty_world_def scripted_client_def
        numeral_3_eq_3)
qed

text \<open>
  Claim C3.  On \<open>Hello {"foo": 1, "bar": 2} goodbye\<close> the locator returns
  \<open>{"foo": 1, "bar": 2}\<close>.
\<close>

theorem locator_example:
  \<open>extract_json_block (py ''Hello {"foo": 1, "bar": 2} goodbye'') = Inr (py ''{"foo": 1, "bar": 2}'')\<close>
  by (simp add: extract_json_block_def py_def lbrace_def rbrace_def py_slice_def)

text \<open>
  Claim C4.  Let an attempt's call return a response whose text has no \<open>{\<close> or no
  \<open>}\<close>.  Then the locator raises \<open>ValueError\<close> on that text, and the attempt ends with
  this \<open>ValueError\<close> after the one request it has sent: the client is not called again
  inside the attempt.  The loop logs the failure under the attempt's number and goes on
  with the attempts that are left.
\<close>

theorem locator_raises_without_braces:
  assumes "lbrace \<notin> set content \<or> rbrace \<notin> set content"
    and "self_client self (create_request self prompt) (cstate w) = (Inr response, s')"
    and "choices response = Some content # others"
  shows "extract_json_block content = Inl (ValueError no_json_message)
       \<and> try_block self loads prompt w =
           (Inl (ValueError no_json_message),
            w\<lparr> cstate := s', sent := sent w @ [create_request self prompt] \<rparr>)
       \<and> extract_loop self loads prompt (attempt # rest) w =
           extract_loop self loads prompt rest
             (w\<lparr> cstate := s', sent := sent w @ [create_request self prompt],
                logged := logged w @ [(attempt, ValueError no_json_message)] \<rparr>)"
proof -
  have a: "extract_json_block content = Inl (ValueError no_json_message)"
    using assms(1) by (rule locator_raises)
  have "lbrace \<notin> set (py_strip content) \<or> rbrace \<notin> set (py_strip content)"
    using assms(1) set_py_strip [of content] by blast
  then have b: "extract_json_block (py_strip content) = Inl (ValueError no_json_message)"
    by (rule locator_raises)
  have r: "attempt_result loads (Inr response) = Inl (ValueError no_json_message)"
    using assms(3) b by (simp add: attempt_result_def parse_response_def response_content_def)
  have t: "try_block self loads prompt w =
           (Inl (ValueError no_json_message),
            w\<lparr> cstate := s', sent := sent w @ [create_request self prompt] \<rparr>)"
    using r assms(2) by (simp add: try_block_eq)
  have l: "extract_loop self loads prompt (attempt # rest) w =
           extract_loop self loads prompt rest
             (w\<lparr> cstate := s', sent := sent w @ [create_request self prompt],
                logged := logged w @ [(attempt, ValueError no_json_message)] \<rparr>)"
    using t by simp
  from a t l show ?thesis by blast
qed

text \<open>
  The theorem on the text of \<open>test_extract_json_block_no_json\<close>: the second scripted
  response is still unread after the attempt.
\<close>

theorem locator_raises_without_braces_witness:
  "extract_json_block (py ''No braces here'') = Inl (ValueError no_json_message)
   \<and> try_block (sample_extractor 3) sample_loads (py ''prompt'')
        (empty_world [text_response (py ''No braces here''), text_response (py ''{}'')]) =
       (Inl (ValueError no_json_message),
        \<lparr> cstate = [text_response (py ''{}'')],
          sent = [create_request (sample_extractor 3) (py ''prompt'')],
          logged = [] \<rparr>)"
proof -
  let ?w = "empty_world [text_response (py ''No braces here''), text_response (py ''{}'')]"
  let ?resp = "\<lparr> choices = [Some (py ''No braces here'')] \<rparr>"
  have h1: "lbrace \<notin> set (py ''No braces here'') \<or> rbrace \<notin> set (py ''No braces here'')"
    by (simp add: py_def lbrace_def rbrace_def)
  have h2: "self_client (sample_extractor 3) (create_request (sample_extractor 3) (py ''prompt''))
      (cstate ?w) = (Inr ?resp, [text_response (py ''{}'')])"
    by (simp add: sample_defs)
  have h3: "choices ?resp = Some (py ''No braces here'') # []"
    by simp
  from locator_raises_without_braces [where loads = sample_loads, OF h1 h2 h3]
  show ?thesis
    by (simp add: empty_world_def)
qed

text \<open>
  Claim C5.  Let the first response hold a block that \<open>json.loads\<close> parses to \<open>v\<close>,
  and let the keys of \<open>v\<close> differ from the keys of the schema.  Then \<open>extract\<close> returns
  \<open>v\<close> as it is, after one request: nothing is checked against the schema.
\<close>

theorem extract_trusts_valid_json:
  fixes v :: json
  assumes "1 \<le> self_max_retries self"
    and "self_client self (create_request self (build_prompt dumps raw_text)) (cstate w) =
           (Inr response, s')"
    and "choices response = Some content # others"
    and "extract_json_block content = Inr json_str"
    and "loads json_str = Some v"
    and "set (dict_keys v) \<noteq> set (dict_keys SCHEMA)"
  shows "JSONExtractor_extract self loads dumps raw_text w =
           (Inr v, w\<lparr> cstate := s',
                      sent := sent w @ [create_request self (build_prompt dumps raw_text)] \<rparr>)"
proof -
  have r: "attempt_result loads (Inr response) = Inr v"
    using assms(3-5)
    by (simp add: attempt_result_def parse_response_def response_content_def block_strip)
  from assms(1) have as: "[1 .. self_max_retries self] = 1 # [2 .. self_max_retries self]"
    by (simp add: upto_rec1)
  show ?thesis
    using extract_loop_success_step [of loads self "build_prompt dumps raw_text" w v 1
        "[2 .. self_max_retries self]"] r assms(2) as
    by (simp add: extract_unfold)
qed

text \<open>
  The theorem on a response whose object has the single key \<open>foo\<close>.
\<close>

theorem extract_trusts_valid_json_witness:
  \<open>set (dict_keys (JDict [(py ''foo'', JInt 1)])) \<noteq> set (dict_keys SCHEMA)
   \<and> JSONExtractor_extract (sample_extractor 3) sample_loads sample_dumps (py ''Year 2020'')
         (empty_world [text_response (py ''Sure: {"foo": 1}'')]) =
       (Inr (JDict [(py ''foo'', JInt 1)]),
        \<lparr> cstate = [],
          sent = [create_request (sample_extractor 3) (build_prompt sample_dumps (py ''Year 2020''))],
          logged = [] \<rparr>)\<close>
proof -
  let ?w = \<open>empty_world [text_response (py ''Sure: {"foo": 1}'')]\<close>
  let ?resp = \<open>\<lparr> choices = [Some (py ''Sure: {"foo": 1}'')] \<rparr>\<close>
  have h1: "1 \<le> self_max_retries (sample_extractor 3)"
    by (simp add: sample_defs)
  have h2: "self_client (sample_extractor 3)
      (create_request (sample_extractor 3) (build_prompt sample_dumps (py ''Year 2020'')))
      (cstate ?w) = (Inr ?resp, [])"
    by (simp add: sample_defs)
  have h3: \<open>choices ?resp = Some (py ''Sure: {"foo": 1}'') # []\<close>
    by simp
  have h4: \<open>extract_json_block (py ''Sure: {"foo": 1}'') = Inr (py ''{"foo": 1}'')\<close>
    by (simp add: parse_defs)
  have h5: \<open>sample_loads (py ''{"foo": 1}'') = Some (JDict [(py ''foo'', JInt 1)])\<close>
    by (simp add: sample_defs py_def)
  have h6: "set (dict_keys (JDict [(py ''foo'', JInt 1)])) \<noteq> set (dict_keys SCHEMA)"
    by (simp add: SCHEMA_def py_def)
  from extract_trusts_valid_json [where loads = sample_loads, OF h1 h2 h3 h4 h5 h6] h6
  show ?thesis
    by (simp add: empty_world_def)
qed

text \<open>
  Claim C7.  The prompt is the fixed instruction (parse the fact sheet and output only a
  JSON object that matches the schema, no additional keys and no prose), then the
  serialized schema of the class, then the raw text, unchanged, between the two
  marker lines.  It is built once: every request that \<open>extract\<close> sends is the same
  request, made of the fixed system message and of that prompt as the user message;
  there is at least one request when an attempt is configured, and there are at most
  \<open>max_retries\<close>.
\<close>

theorem prompt_is_fixed_and_verbatim:
  "build_prompt dumps raw_text =
      py ''The following is an ITDB fact sheet. Parse its contents and output ''
      @ py ''**only** a JSON object that matches this schema exactly'' @ [8212]
      @ py ''no additional keys and no prose:\<newline>\<newline>''
      @ dumps SCHEMA
      @ py ''\<newline>\<newline>--- BEGIN FACT SHEET ---\<newline>''
      @ raw_text
      @ py ''\<newline>--- END FACT SHEET ---''
   \<and> SCHEMA =
        JDict
        [(py ''year'',
            JStr (py ''integer '' @ [8209] @ py '' 4'' @ [8209] @ py ''digit year of the fact sheet'')),
         (py ''total_incidents'', JStr (py ''integer total number of incidents reported'')),
         (py ''nuclear_material_incidents'',
            JStr (py ''integer incidents involving nuclear material'')),
         (py ''radioactive_material_incidents'',
            JStr (py ''integer incidents involving other radioactive material'')),
         (py ''incidents_by_material'',
            JDict [(py ''uranium'', JStr (py ''integer'')),
                   (py ''plutonium'', JStr (py ''integer'')),
                   (py ''medical_isotopes'', JStr (py ''integer''))]),
         (py ''incidents_by_group'',
            JDict [(py ''theft_or_loss'', JStr (py ''integer'')),
                   (py ''unauthorized_activities'', JStr (py ''integer'')),
                   (py ''other'', JStr (py ''integer''))])]
   \<and> (\<exists>n. min 1 (nat (self_max_retries self)) \<le> n \<and> n \<le> nat (self_max_retries self) \<and>
         sent (snd (JSONExtractor_extract self loads dumps raw_text w)) =
           sent w @ replicate n (create_request self (build_prompt dumps raw_text)))
   \<and> create_request self (build_prompt dumps raw_text) =
        \<lparr> req_model = self_deployment self,
          req_messages =
            [\<lparr> msg_role = py ''system'',
               msg_content =
                 py ''You are a data'' @ [8209] @ py ''extraction assistant. ''
                 @ py ''Respond **only** with a JSON object matching the schema provided. ''
                 @ py ''Do not output any explanatory text.'' \<rparr>,
             \<lparr> msg_role = py ''user'', msg_content = build_prompt dumps raw_text \<rparr>],
          req_max_tokens = self_max_tokens self,
          req_temperature = self_temperature self,
          req_top_p = 1 \<rparr>"
proof (intro conjI)
  show "build_prompt dumps raw_text =
      py ''The following is an ITDB fact sheet. Parse its contents and output ''
      @ py ''**only** a JSON object that matches this schema exactly'' @ [8212]
      @ py ''no additional keys and no prose:\<newline>\<newline>''
      @ dumps SCHEMA
      @ py ''\<newline>\<newline>--- BEGIN FACT SHEET ---\<newline>''
      @ raw_text
      @ py ''\<newline>--- END FACT SHEET ---''"
    by (simp add: build_prompt_def prompt_instruction_def begin_marker_def end_marker_def py_def)
  show "SCHEMA =
        JDict
        [(py ''year'',
            JStr (py ''integer '' @ [8209] @ py '' 4'' @ [8209] @ py ''digit year of the fact sheet'')),
         (py ''total_incidents'', JStr (py ''integer total number of incidents reported'')),
         (py ''nuclear_material_incidents'',
            JStr (py ''integer incidents involving nuclear material'')),
         (py ''radioactive_material_incidents'',
            JStr (py ''integer incidents involving other radioactive material'')),
         (py ''incidents_by_material'',
            JDict [(py ''uranium'', JStr (py ''integer'')),
                   (py ''plutonium'', JStr (py ''integer'')),
                   (py ''medical_isotopes'', JStr (py ''integer''))]),
         (py ''incidents_by_group'',
            JDict [(py ''theft_or_loss'', JStr (py ''integer'')),
                   (py ''unauthorized_activities'', JStr (py ''integer'')),
                   (py ''other'', JStr (py ''integer''))])]"
    by (simp only: SCHEMA_def)
  show "\<exists>n. min 1 (nat (self_max_retries self)) \<le> n \<and> n \<le> nat (self_max_retries self) \<and>
         sent (snd (JSONExtractor_extract self loads dumps raw_text w)) =
           sent w @ replicate n (create_request self (build_prompt dumps raw_text))"
    using extract_loop_sent [of "[1 .. self_max_retries self]" self loads
        "build_prompt dumps raw_text" w]
    by (simp add: extract_unfold)
  show "create_request self (build_prompt dumps raw_text) =
        \<lparr> req_model = self_deployment self,
          req_messages =
            [\<lparr> msg_role = py ''system'',
               msg_content =
                 py ''You are a data'' @ [8209] @ py ''extraction assistant. ''
                 @ py ''Respond **only** with a JSON object matching the schema provided. ''
                 @ py ''Do not output any explanatory text.'' \<rparr>,
             \<lparr> msg_role = py ''user'', msg_content = build_prompt dumps raw_text \<rparr>],
          req_max_tokens = self_max_tokens self,
          req_temperature = self_temperature self,
          req_top_p = 1 \<rparr>"
    by (simp add: create_request_def system_content_def)
qed

text \<open>
  The theorem on the text \<open>Incidents: 4\<close>, with \<open><schema>\<close> standing for the serialized
  schema: the whole prompt, character for character, and the two messages of the
  request that carries it.
\<close>

theorem prompt_is_fixed_and_verbatim_witness:
  "build_prompt sample_dumps (py ''Incidents: 4'') =
      py ''The following is an ITDB fact sheet. Parse its contents and output ''
      @ py ''**only** a JSON object that matches this schema exactly'' @ [8212]
      @ py ''no additional keys and no prose:\<newline>\<newline>''
      @ py ''<schema>\<newline>\<newline>''
      @ py ''--- BEGIN FACT SHEET ---\<newline>Incidents: 4\<newline>--- END FACT SHEET ---''
   \<and> map msg_content (req_messages (create_request (sample_extractor 2)
         (build_prompt sample_dumps (py ''Incidents: 4'')))) =
       [py ''You are a data'' @ [8209] @ py ''extraction assistant. ''
        @ py ''Respond **only** with a JSON object matching the schema provided. ''
        @ py ''Do not output any explanatory text.'',
        build_prompt sample_dumps (py ''Incidents: 4'')]"
proof -
  let ?p = "build_prompt sample_dumps (py ''Incidents: 4'')"
  note t = prompt_is_fixed_and_verbatim
    [of sample_dumps "py ''Incidents: 4''" "sample_extractor 2" sample_loads
        "empty_world []"]
  from t have p: "?p =
      py ''The following is an ITDB fact sheet. Parse its contents and output ''
      @ py ''**only** a JSON object that matches this schema exactly'' @ [8212]
      @ py ''no additional keys and no prose:\<newline>\<newline>''
      @ py ''<schema>\<newline>\<newline>''
      @ py ''--- BEGIN FACT SHEET ---\<newline>Incidents: 4\<newline>--- END FACT SHEET ---''"
    by (simp add: sample_dumps_def py_def)
  from t have "create_request (sample_extractor 2) ?p =
        \<lparr> req_model = self_deployment (sample_extractor 2),
          req_messages =
            [\<lparr> msg_role = py ''system'',
               msg_content =
                 py ''You are a data'' @ [8209] @ py ''extraction assistant. ''
                 @ py ''Respond **only** with a JSON object matching the schema provided. ''
                 @ py ''Do not output any explanatory text.'' \<rparr>,
             \<lparr> msg_role = py ''user'', msg_content = ?p \<rparr>],
          req_max_tokens = self_max_tokens (sample_extractor 2),
          req_temperature = self_temperature (sample_extractor 2),
          req_top_p = 1 \<rparr>"
    by blast
  then have m: "map msg_content (req_messages (create_request (sample_extractor 2) ?p)) =
       [py ''You are a data'' @ [8209] @ py ''extraction assistant. ''
        @ py ''Respond **only** with a JSON object matching the schema provided. ''
        @ py ''Do not output any explanatory text.'', ?p]"
    by (simp only: chat_request.simps list.map chat_message.simps)
  from p m show ?thesis by (rule conjI)
qed

text \<open>
  Claim C9.  Let a response text hold both braces, every \<open>}\<close> before every \<open>{\<close>.
  Then the locator does not raise: it returns the empty string, on the text and on the
  stripped text alike.  As \<open>json.loads\<close> rejects the empty string, the attempt fails
  afterwards, with \<open>JSONDecodeError\<close>.
\<close>

theorem locator_reversed_braces:
  assumes "content = xs @ ys"
    and "rbrace \<in> set xs" and "lbrace \<notin> set xs"
    and "lbrace \<in> set ys" and "rbrace \<notin> set ys"
    and "choices response = Some content # others"
    and "loads [] = None"
  shows "extract_json_block content = Inr []
       \<and> extract_json_block (py_strip content) = Inr []
       \<and> parse_response loads response = Inl JSONDecodeError"
proof -
  have a: "extract_json_block content = Inr []"
    using assms(1-5) by (rule locator_reversed)
  let ?xs = "dropWhile py_isspace xs"
  let ?ys = "rev (dropWhile py_isspace (rev ys))"
  have s: "py_strip content = ?xs @ ?ys"
    unfolding assms(1)
    using assms(2) braces_not_space(2) assms(4) braces_not_space(1) by (rule py_strip_append)
  have x1: "rbrace \<in> set ?xs"
    using assms(2) braces_not_space(2) by (rule mem_dropWhile)
  have x2: "lbrace \<notin> set ?xs"
    using assms(3) set_dropWhileD by fast
  have "lbrace \<in> set (rev ys)" using assms(4) by simp
  then have "lbrace \<in> set (dropWhile py_isspace (rev ys))"
    using braces_not_space(1) by (rule mem_dropWhile)
  then have y1: "lbrace \<in> set ?ys" by simp
  have "rbrace \<notin> set (dropWhile py_isspace (rev ys))"
    using assms(5) set_dropWhileD [of rbrace py_isspace "rev ys"] by auto
  then have y2: "rbrace \<notin> set ?ys" by simp
  have b: "extract_json_block (py_strip content) = Inr []"
    using s x1 x2 y1 y2 by (rule locator_reversed)
  have c: "parse_response loads response = Inl JSONDecodeError"
    using assms(6,7) b by (simp add: parse_response_def response_content_def)
  from a b c show ?thesis by blast
qed

text \<open>
  The theorem on the text \<open>} {\<close>.
\<close>

theorem locator_reversed_braces_witness:
  "extract_json_block (py ''} {'') = Inr []
   \<and> parse_response sample_loads \<lparr> choices = [Some (py ''} {'')] \<rparr> = Inl JSONDecodeError"
proof -
  have h1: "py ''} {'' = py ''}'' @ py '' {''" by (simp add: py_def)
  have h2: "rbrace \<in> set (py ''}'')" by (simp add: py_def rbrace_def)
  have h3: "lbrace \<notin> set (py ''}'')" by (simp add: py_def lbrace_def)
  have h4: "lbrace \<in> set (py '' {'')" by (simp add: py_def lbrace_def)
  have h5: "rbrace \<notin> set (py '' {'')" by (simp add: py_def rbrace_def)
  have h6: "choices \<lparr> choices = [Some (py ''} {'')] \<rparr> = Some (py ''} {'') # []" by simp
  have h7: "sample_loads [] = None" by (simp add: sample_loads_def py_def)
  from locator_reversed_braces [where loads = sample_loads, OF h1 h2 h3 h4 h5 h6 h7]
  show ?thesis by simp
qed


section \<open>The properties of \<open>pdf_parser\<close>\<close>

text \<open>
  Whatever the configuration and the collaborators, the first call of
  \<open>parse_and_embed\<close> is the text extraction.
\<close>

lemma parse_and_embed_first_event:
  "\<exists>rest. snd (snd (parse_and_embed env pdf_bytes embeddings_client chunk_size chunk_overlap
                       return_vectorstore (w, evs))) = evs @ Ev_extract_text_from_pdf # rest"
  by (auto simp: parse_and_embed_def call_ext_def Let_def split: prod.splits sum.splits)

text \<open>
  Claim C6 does not hold of the file as it stands.  On the input of
  \<open>test_extract_text_uses_context_manager\<close>, \<open>extract_text_from_pdf\<close> returns \<open>None\<close>,
  not the text \<open>a\<close>, newline, \<open>b\<close> that the test asserts, and the document is
  neither entered nor exited.
\<close>

theorem extract_text_from_pdf_returns_none:
  "extract_text_from_pdf fake_open (py ''%PDF'') (False, False) = (Inr None, (False, False))
   \<and> fst (extract_text_from_pdf fake_open (py ''%PDF'') (False, False)) \<noteq>
       Inr (Some (py ''a\<newline>b''))"
  by (simp add: extract_text_from_pdf_def)




end
